theory Spec2Isabelle
  imports Main
begin

section \<open>Python values and dictionaries\<close>

text \<open>
  The switch descriptors of \<^verbatim>\<open>switch.py\<close> are Python dictionaries with string keys and
  values of several types (strings, booleans), and the metric store returns values of any
  type. \<open>pyval\<close> is the part of Python's value space the module touches;
  floating-point readings are left out.
\<close>

datatype pyval = PNone | PBool bool | PInt int | PStr string

text \<open>
  Python's \<^verbatim>\<open>==\<close> on these values. \<^verbatim>\<open>bool\<close> is a subclass of \<^verbatim>\<open>int\<close>, so
  \<^verbatim>\<open>True == 1\<close> and \<^verbatim>\<open>False == 0\<close> hold; values of unrelated types are unequal.
\<close>

fun py_eq :: "pyval \<Rightarrow> pyval \<Rightarrow> bool" where
  "py_eq PNone PNone = True"
| "py_eq (PBool a) (PBool b) = (a = b)"
| "py_eq (PInt a) (PInt b) = (a = b)"
| "py_eq (PBool a) (PInt b) = ((if a then 1 else 0) = b)"
| "py_eq (PInt a) (PBool b) = (a = (if b then 1 else 0))"
| "py_eq (PStr a) (PStr b) = (a = b)"
| "py_eq _ _ = False"

text \<open>Python's \<^verbatim>\<open>bool(x)\<close>: the truth value of an object.\<close>

fun py_bool :: "pyval \<Rightarrow> bool" where
  "py_bool PNone = False"
| "py_bool (PBool b) = b"
| "py_bool (PInt i) = (i \<noteq> 0)"
| "py_bool (PStr s) = (s \<noteq> [])"

datatype error = KeyError string | TypeError

type_synonym pydict = "string \<rightharpoonup> pyval"

text \<open>\<^verbatim>\<open>d.get(k)\<close>: the value, or \<^verbatim>\<open>None\<close> for a key that is not there.\<close>

definition dict_get :: "pydict \<Rightarrow> string \<Rightarrow> pyval" where
  "dict_get d k = (case d k of None \<Rightarrow> PNone | Some v \<Rightarrow> v)"

text \<open>\<^verbatim>\<open>d.get(k, dflt)\<close>.\<close>

definition dict_get_default :: "pydict \<Rightarrow> string \<Rightarrow> pyval \<Rightarrow> pyval" where
  "dict_get_default d k dflt = (case d k of None \<Rightarrow> dflt | Some v \<Rightarrow> v)"

text \<open>\<^verbatim>\<open>d[k]\<close>: raises \<^verbatim>\<open>KeyError\<close> for a key that is not there.\<close>

definition dict_item :: "pydict \<Rightarrow> string \<Rightarrow> error + pyval" where
  "dict_item d k = (case d k of None \<Rightarrow> Inl (KeyError k) | Some v \<Rightarrow> Inr v)"

text \<open>
  \<^verbatim>\<open>sep.join(xs)\<close>: every element has to be a string, otherwise \<^verbatim>\<open>TypeError\<close>.
\<close>

fun str_join :: "string \<Rightarrow> pyval list \<Rightarrow> error + string" where
  "str_join sep [] = Inr []"
| "str_join sep [PStr s] = Inr s"
| "str_join sep (PStr s # x # xs) =
     (case str_join sep (x # xs) of Inl e \<Rightarrow> Inl e | Inr r \<Rightarrow> Inr (s @ sep @ r))"
| "str_join sep (_ # xs) = Inl TypeError"

section \<open>Constants of the module\<close>

text \<open>
  The module imports \<^verbatim>\<open>DOMAIN\<close> from \<^verbatim>\<open>.const\<close>, \<^verbatim>\<open>HAChargerStatuses\<close> from
  \<^verbatim>\<open>.enums\<close> and \<^verbatim>\<open>ChargePointStatus\<close> from the \<^verbatim>\<open>ocpp\<close> library. None of them
  is part of the source tree, so the values the descriptors read from them are parameters.
  Both enumerations are string-valued.
\<close>

record module_consts =
  DOMAIN :: string
  HAChargerStatuses_status :: string
  ChargePointStatus_charging :: string
  ChargePointStatus_available :: string

text \<open>
  The four descriptors, lines 14 to 38. \<^verbatim>\<open>HAChargerServices.service_reset.name\<close> is the
  name of the enumeration member, that is the identifier written in the source.
\<close>

definition SWITCH_CHARGE :: "module_consts \<Rightarrow> pydict" where
  "SWITCH_CHARGE K = [
     ''name'' \<mapsto> PStr ''Charge_Control'',
     ''on'' \<mapsto> PStr ''service_charge_start'',
     ''off'' \<mapsto> PStr ''service_charge_stop'',
     ''metric'' \<mapsto> PStr (HAChargerStatuses_status K),
     ''condition'' \<mapsto> PStr (ChargePointStatus_charging K)]"

definition SWITCH_AVAILABILITY :: "module_consts \<Rightarrow> pydict" where
  "SWITCH_AVAILABILITY K = [
     ''name'' \<mapsto> PStr ''Availability'',
     ''on'' \<mapsto> PStr ''service_availability'',
     ''off'' \<mapsto> PStr ''service_availability'',
     ''default'' \<mapsto> PBool True,
     ''metric'' \<mapsto> PStr (HAChargerStatuses_status K),
     ''condition'' \<mapsto> PStr (ChargePointStatus_available K)]"

definition SWITCH_RESET :: pydict where
  "SWITCH_RESET = [
     ''name'' \<mapsto> PStr ''Reset'',
     ''on'' \<mapsto> PStr ''service_reset'',
     ''pulse'' \<mapsto> PBool True]"

definition SWITCH_UNLOCK :: pydict where
  "SWITCH_UNLOCK = [
     ''name'' \<mapsto> PStr ''Unlock'',
     ''on'' \<mapsto> PStr ''service_unlock'',
     ''pulse'' \<mapsto> PBool True]"

text \<open>The list \<^verbatim>\<open>async_setup_entry\<close> iterates over, line 48.\<close>

definition switch_descriptors :: "module_consts \<Rightarrow> pydict list" where
  "switch_descriptors K = [SWITCH_CHARGE K, SWITCH_AVAILABILITY K, SWITCH_RESET, SWITCH_UNLOCK]"

section \<open>The central system\<close>

text \<open>
  \<^verbatim>\<open>CentralSystem\<close> lives in \<^verbatim>\<open>.api\<close>, outside the source tree. The switch uses two of
  its methods: \<^verbatim>\<open>get_metric(cp_id, measurand)\<close>, which returns the current reading, and
  \<^verbatim>\<open>set_charger_state(cp_id, service_name, state=True)\<close>, which returns whether the
  command succeeded. Both are fields of the record, so every theorem holds for every
  metric store and every command channel. \<open>calls\<close> logs each call the switch makes,
  in order; the third argument of a logged \<open>SetChargerState\<close> is \<open>None\<close> when the caller
  passed no \<^verbatim>\<open>state\<close> argument.
\<close>

datatype cs_call = GetMetric string pyval | SetChargerState string pyval "bool option"

record central_system =
  get_metric :: "string \<Rightarrow> pyval \<Rightarrow> pyval"
  set_charger_state :: "string \<Rightarrow> pyval \<Rightarrow> bool option \<Rightarrow> bool"
  calls :: "cs_call list"

definition call_get_metric :: "central_system \<Rightarrow> string \<Rightarrow> pyval \<Rightarrow> pyval \<times> central_system" where
  "call_get_metric cs cp k =
     (get_metric cs cp k, cs\<lparr>calls := calls cs @ [GetMetric cp k]\<rparr>)"

definition call_set_charger_state ::
  "central_system \<Rightarrow> string \<Rightarrow> pyval \<Rightarrow> bool option \<Rightarrow> bool \<times> central_system" where
  "call_set_charger_state cs cp service st =
     (set_charger_state cs cp service st, cs\<lparr>calls := calls cs @ [SetChargerState cp service st]\<rparr>)"

section \<open>ChargePointSwitch\<close>

text \<open>
  The fields \<^verbatim>\<open>__init__\<close> sets. \<^verbatim>\<open>self.central_system\<close> is a reference to a shared
  object; the model passes the central system to each method and gets it back. The two
  coroutines \<^verbatim>\<open>async_turn_on\<close> and \<^verbatim>\<open>async_turn_off\<close> await one call each and are
  modelled as running from start to end.
\<close>

record ChargePointSwitch =
  cp_id :: string
  state :: bool
  purpose :: pydict
  unique_id :: string
  name :: string
  entity_id :: string

text \<open>The three tests the class makes on its descriptor, lines 85, 95 and 63.\<close>

definition metric_driven :: "pydict \<Rightarrow> bool" where
  "metric_driven d = (dict_get d ''metric'' \<noteq> PNone)"

definition is_pulse :: "pydict \<Rightarrow> bool" where
  "is_pulse d = (dict_get_default d ''pulse'' (PBool False) = PBool True)"

definition has_default :: "pydict \<Rightarrow> bool" where
  "has_default d = (dict_get d ''default'' \<noteq> PNone)"

text \<open>\<^verbatim>\<open>__init__\<close>, lines 57 to 69.\<close>

definition init :: "module_consts \<Rightarrow> string \<Rightarrow> pydict \<Rightarrow> error + ChargePointSwitch" where
  "init K cp serv_desc =
     (case (if has_default serv_desc
            then (case dict_item serv_desc ''default'' of
                    Inl e \<Rightarrow> Inl e | Inr v \<Rightarrow> Inr (py_bool v))
            else Inr False) of
        Inl e \<Rightarrow> Inl e
      | Inr st \<Rightarrow>
     (case dict_item serv_desc ''name'' of
        Inl e \<Rightarrow> Inl e
      | Inr nm \<Rightarrow>
     (case str_join ''.'' [PStr ''switch'', PStr (DOMAIN K), PStr cp, nm] of
        Inl e \<Rightarrow> Inl e
      | Inr i \<Rightarrow>
     (case str_join ''.'' [PStr cp, nm] of
        Inl e \<Rightarrow> Inl e
      | Inr n \<Rightarrow>
     (case str_join ''_'' [PStr cp, nm] of
        Inl e \<Rightarrow> Inl e
      | Inr u \<Rightarrow>
          Inr \<lparr>cp_id = cp, state = st, purpose = serv_desc,
               unique_id = i, name = n, entity_id = ''switch.'' @ u\<rparr>)))))"

text \<open>
  The property \<^verbatim>\<open>is_on\<close>, lines 81 to 91. It returns the value, the central system
  (with its log) and the switch.
\<close>

definition is_on ::
  "central_system \<Rightarrow> ChargePointSwitch \<Rightarrow> error + (bool \<times> central_system \<times> ChargePointSwitch)" where
  "is_on cs sw =
     (if metric_driven (purpose sw) then
        (case dict_item (purpose sw) ''metric'' of
           Inl e \<Rightarrow> Inl e
         | Inr k \<Rightarrow>
             (case call_get_metric cs (cp_id sw) k of (resp, cs') \<Rightarrow>
                (case dict_item (purpose sw) ''condition'' of
                   Inl e \<Rightarrow> Inl e
                 | Inr c \<Rightarrow>
                     (let sw' = (if py_eq resp c then sw\<lparr>state := True\<rparr>
                                 else sw\<lparr>state := False\<rparr>)
                      in Inr (state sw', cs', sw')))))
      else Inr (state sw, cs, sw))"

text \<open>\<^verbatim>\<open>async_turn_on\<close>, lines 93 to 103.\<close>

definition async_turn_on ::
  "central_system \<Rightarrow> ChargePointSwitch \<Rightarrow> error + (central_system \<times> ChargePointSwitch)" where
  "async_turn_on cs sw =
     (if is_pulse (purpose sw) then
        (case dict_item (purpose sw) ''on'' of
           Inl e \<Rightarrow> Inl e
         | Inr c \<Rightarrow>
             (case call_set_charger_state cs (cp_id sw) c None of (resp, cs') \<Rightarrow>
                Inr (cs', sw\<lparr>state := \<not> resp\<rparr>)))
      else
        (case dict_item (purpose sw) ''on'' of
           Inl e \<Rightarrow> Inl e
         | Inr c \<Rightarrow>
             (case call_set_charger_state cs (cp_id sw) c None of (resp, cs') \<Rightarrow>
                Inr (cs', sw\<lparr>state := resp\<rparr>))))"

text \<open>\<^verbatim>\<open>async_turn_off\<close>, lines 105 to 118.\<close>

definition async_turn_off ::
  "central_system \<Rightarrow> ChargePointSwitch \<Rightarrow> error + (central_system \<times> ChargePointSwitch)" where
  "async_turn_off cs sw =
     (case (if dict_get (purpose sw) ''off'' = PNone then Inr (True, cs)
            else
              (case dict_item (purpose sw) ''off'' of
                 Inl e \<Rightarrow> Inl e
               | Inr off \<Rightarrow>
              (case dict_item (purpose sw) ''on'' of
                 Inl e \<Rightarrow> Inl e
               | Inr on \<Rightarrow>
                   if py_eq off on
                   then Inr (call_set_charger_state cs (cp_id sw) off (Some False))
                   else Inr (call_set_charger_state cs (cp_id sw) off None)))) of
        Inl e \<Rightarrow> Inl e
      | Inr (resp, cs') \<Rightarrow> Inr (cs', sw\<lparr>state := \<not> resp\<rparr>))"

section \<open>State-derivation modes of a descriptor\<close>

text \<open>
  How many of the three modes a descriptor carries: metric-driven (\<^verbatim>\<open>metric\<close> set),
  pulse (\<^verbatim>\<open>pulse\<close> is \<^verbatim>\<open>True\<close>), default-driven (\<^verbatim>\<open>default\<close> set).
\<close>

definition mode_count :: "pydict \<Rightarrow> nat" where
  "mode_count d =
     (if metric_driven d then 1 else 0) + (if is_pulse d then 1 else 0)
       + (if has_default d then 1 else 0)"

section \<open>Concrete inputs\<close>

text \<open>
  Inputs on which the theorems below are evaluated. \<open>example_consts\<close> gives the imported
  constants sample values; \<open>example_cs reading accepted\<close> is a central system whose metric
  store answers every query with \<open>reading\<close> and whose command channel answers every
  command with \<open>accepted\<close>; \<open>example_switch d b\<close> is a switch on charge point
  \<^verbatim>\<open>cp1\<close> with descriptor \<open>d\<close> and cached state \<open>b\<close>.
\<close>

definition example_consts :: module_consts where
  "example_consts = \<lparr>DOMAIN = ''ocpp'', HAChargerStatuses_status = ''Status'',
     ChargePointStatus_charging = ''Charging'', ChargePointStatus_available = ''Available''\<rparr>"

definition example_cs :: "pyval \<Rightarrow> bool \<Rightarrow> central_system" where
  "example_cs reading accepted =
     \<lparr>get_metric = (\<lambda>cp k. reading), set_charger_state = (\<lambda>cp service st. accepted), calls = []\<rparr>"

definition example_switch :: "pydict \<Rightarrow> bool \<Rightarrow> ChargePointSwitch" where
  "example_switch d b =
     \<lparr>cp_id = ''cp1'', state = b, purpose = d, unique_id = [], name = [], entity_id = []\<rparr>"

text \<open>
  Two descriptors that are not in the module: a plain toggle with a default state, and a
  metric-driven descriptor that lacks its \<^verbatim>\<open>condition\<close>.
\<close>

definition example_toggle :: pydict where
  "example_toggle = [
     ''name'' \<mapsto> PStr ''Toggle'',
     ''on'' \<mapsto> PStr ''service_toggle'',
     ''default'' \<mapsto> PBool True]"

definition example_no_condition :: pydict where
  "example_no_condition = [
     ''name'' \<mapsto> PStr ''Bare'',
     ''on'' \<mapsto> PStr ''service_bare'',
     ''metric'' \<mapsto> PStr ''Status'']"

lemmas example_defs = example_switch_def example_cs_def example_consts_def
lemmas descriptor_defs = SWITCH_CHARGE_def SWITCH_AVAILABILITY_def SWITCH_RESET_def SWITCH_UNLOCK_def

section \<open>Auxiliary facts\<close>

lemma dict_item_Some: "d k = Some v \<Longrightarrow> dict_item d k = Inr v"
  by (simp add: dict_item_def)

lemma dict_item_None: "d k = None \<Longrightarrow> dict_item d k = Inl (KeyError k)"
  by (simp add: dict_item_def)

lemma dict_get_Some: "d k = Some v \<Longrightarrow> dict_get d k = v"
  by (simp add: dict_get_def)

lemma metric_driven_item:
  "metric_driven d \<Longrightarrow> dict_item d ''metric'' = Inr (dict_get d ''metric'')"
  by (auto simp: metric_driven_def dict_get_def dict_item_def split: option.splits)

lemma py_eq_refl: "py_eq v v"
  by (cases v) simp_all

lemma not_metric_driven_RESET: "\<not> metric_driven SWITCH_RESET"
  by (simp add: metric_driven_def dict_get_def SWITCH_RESET_def)

lemma not_metric_driven_UNLOCK: "\<not> metric_driven SWITCH_UNLOCK"
  by (simp add: metric_driven_def dict_get_def SWITCH_UNLOCK_def)

lemma descriptors_condition:
  "\<forall>d \<in> set (switch_descriptors K). metric_driven d \<longrightarrow> d ''condition'' \<noteq> None"
  by (simp add: switch_descriptors_def SWITCH_CHARGE_def SWITCH_AVAILABILITY_def
      not_metric_driven_RESET not_metric_driven_UNLOCK)

section \<open>Reading the state\<close>

text \<open>
  Claim C1. For a switch whose descriptor has \<^verbatim>\<open>metric\<close> set (and carries the
  \<^verbatim>\<open>condition\<close> it is compared with), \<open>is_on\<close> returns true exactly when the
  metric store's current value for the charge point and the metric key equals the
  condition. The metric store is queried once, the result becomes the new cached state,
  and the outcome does not depend on the cached state before the call.
\<close>

theorem is_on_metric:
  assumes "metric_driven (purpose sw)" and "purpose sw ''condition'' = Some c"
  shows "is_on cs sw =
           Inr (py_eq (get_metric cs (cp_id sw) (dict_get (purpose sw) ''metric'')) c,
                cs\<lparr>calls := calls cs @ [GetMetric (cp_id sw) (dict_get (purpose sw) ''metric'')]\<rparr>,
                sw\<lparr>state := py_eq (get_metric cs (cp_id sw) (dict_get (purpose sw) ''metric'')) c\<rparr>)
         \<and> is_on cs (sw\<lparr>state := b\<rparr>) = is_on cs sw"
  using assms
  by (simp add: is_on_def metric_driven_item dict_item_Some call_get_metric_def)

text \<open>The theorem of claim C1 at concrete inputs.\<close>

theorem is_on_metric_witness:
  "metric_driven (purpose (example_switch (SWITCH_CHARGE example_consts) False))
   \<and> purpose (example_switch (SWITCH_CHARGE example_consts) False) ''condition'' = Some (PStr ''Charging'')
   \<and> is_on (example_cs (PStr ''Charging'') True) (example_switch (SWITCH_CHARGE example_consts) False)
       = Inr (True,
              (example_cs (PStr ''Charging'') True)\<lparr>calls := [GetMetric ''cp1'' (PStr ''Status'')]\<rparr>,
              example_switch (SWITCH_CHARGE example_consts) True)
   \<and> is_on (example_cs (PStr ''Charging'') True) (example_switch (SWITCH_CHARGE example_consts) True)
       = is_on (example_cs (PStr ''Charging'') True) (example_switch (SWITCH_CHARGE example_consts) False)"
  using is_on_metric [of "example_switch (SWITCH_CHARGE example_consts) False" "PStr ''Charging''"
      "example_cs (PStr ''Charging'') True" True]
  by (simp add: example_switch_def example_cs_def example_consts_def SWITCH_CHARGE_def
      metric_driven_def dict_get_def)

text \<open>
  Claim C8. For a metric-driven switch, when the metric store answers with a value that
  is not equal to the condition (such as the value it uses for an unknown metric),
  \<open>is_on\<close> raises no error and returns false, and the cached state is false afterwards.
\<close>

theorem is_on_unknown_metric:
  assumes "metric_driven (purpose sw)" and "purpose sw ''condition'' = Some c"
    and "get_metric cs (cp_id sw) (dict_get (purpose sw) ''metric'') = sentinel"
    and "\<not> py_eq sentinel c"
  shows "\<exists>cs' sw'. is_on cs sw = Inr (False, cs', sw') \<and> state sw' = False"
  using assms
  by (simp add: is_on_def metric_driven_item dict_item_Some call_get_metric_def)

text \<open>The theorem of claim C8 at concrete inputs.\<close>

theorem is_on_unknown_metric_witness:
  "metric_driven (purpose (example_switch (SWITCH_AVAILABILITY example_consts) True))
   \<and> purpose (example_switch (SWITCH_AVAILABILITY example_consts) True) ''condition''
        = Some (PStr ''Available'')
   \<and> get_metric (example_cs PNone True) ''cp1'' (PStr ''Status'') = PNone
   \<and> \<not> py_eq PNone (PStr ''Available'')
   \<and> (\<exists>cs' sw'. is_on (example_cs PNone True)
                   (example_switch (SWITCH_AVAILABILITY example_consts) True) = Inr (False, cs', sw')
         \<and> state sw' = False)"
  using is_on_unknown_metric [of "example_switch (SWITCH_AVAILABILITY example_consts) True"
      "PStr ''Available''" "example_cs PNone True" PNone]
  by (simp add: example_defs descriptor_defs metric_driven_def dict_get_def)

text \<open>
  Claim C9. For a switch whose descriptor has no \<^verbatim>\<open>metric\<close>, \<open>is_on\<close> returns the
  cached state and changes nothing: the switch is returned as it was, and the central
  system with its log of calls is returned as it was, so neither the metric store nor the
  command channel is called.
\<close>

theorem is_on_no_metric:
  assumes "\<not> metric_driven (purpose sw)"
  shows "is_on cs sw = Inr (state sw, cs, sw)"
  using assms by (simp add: is_on_def)

text \<open>The theorem of claim C9 at concrete inputs.\<close>

theorem is_on_no_metric_witness:
  "\<not> metric_driven (purpose (example_switch SWITCH_RESET True))
   \<and> is_on (example_cs (PStr ''Available'') True) (example_switch SWITCH_RESET True) =
       Inr (True, example_cs (PStr ''Available'') True, example_switch SWITCH_RESET True)"
  using is_on_no_metric [of "example_switch SWITCH_RESET True" "example_cs (PStr ''Available'') True"]
  by (simp add: example_defs descriptor_defs metric_driven_def dict_get_def)

text \<open>
  Claim C10. On a metric-driven switch \<open>is_on\<close> reads \<^verbatim>\<open>condition\<close> with a plain
  subscript: it returns a value exactly when the descriptor defines \<^verbatim>\<open>condition\<close>,
  and raises \<^verbatim>\<open>KeyError\<close> for that key otherwise. Each of the four descriptors of the
  module that sets \<^verbatim>\<open>metric\<close> also sets \<^verbatim>\<open>condition\<close>.
\<close>

theorem is_on_total_iff:
  assumes "metric_driven (purpose sw)"
  shows "((\<exists>r. is_on cs sw = Inr r) \<longleftrightarrow> purpose sw ''condition'' \<noteq> None)
       \<and> (purpose sw ''condition'' = None \<longrightarrow> is_on cs sw = Inl (KeyError ''condition''))
       \<and> (\<forall>d \<in> set (switch_descriptors K). metric_driven d \<longrightarrow> d ''condition'' \<noteq> None)"
proof -
  have absent: "is_on cs sw = Inl (KeyError ''condition'')" if "purpose sw ''condition'' = None"
    using assms that
    by (simp add: is_on_def metric_driven_item dict_item_None call_get_metric_def)
  have present: "\<exists>r. is_on cs sw = Inr r" if "purpose sw ''condition'' \<noteq> None"
  proof -
    from that obtain c where "purpose sw ''condition'' = Some c" by blast
    with assms show ?thesis
      by (auto simp: is_on_def metric_driven_item dict_item_Some call_get_metric_def)
  qed
  have "(\<exists>r. is_on cs sw = Inr r) \<longleftrightarrow> purpose sw ''condition'' \<noteq> None"
  proof
    assume returns: "\<exists>r. is_on cs sw = Inr r"
    show "purpose sw ''condition'' \<noteq> None"
    proof
      assume "purpose sw ''condition'' = None"
      then have "is_on cs sw = Inl (KeyError ''condition'')" by (rule absent)
      with returns show False by simp
    qed
  next
    assume "purpose sw ''condition'' \<noteq> None"
    then show "\<exists>r. is_on cs sw = Inr r" by (rule present)
  qed
  with absent descriptors_condition show ?thesis by blast
qed

text \<open>The theorem of claim C10 at concrete inputs.\<close>

theorem is_on_total_iff_witness:
  "metric_driven (purpose (example_switch example_no_condition False))
   \<and> purpose (example_switch example_no_condition False) ''condition'' = None
   \<and> is_on (example_cs PNone True) (example_switch example_no_condition False)
        = Inl (KeyError ''condition'')
   \<and> metric_driven (purpose (example_switch (SWITCH_AVAILABILITY example_consts) False))
   \<and> purpose (example_switch (SWITCH_AVAILABILITY example_consts) False) ''condition'' \<noteq> None
   \<and> (\<exists>r. is_on (example_cs PNone True)
              (example_switch (SWITCH_AVAILABILITY example_consts) False) = Inr r)"
  using is_on_total_iff [of "example_switch example_no_condition False" "example_cs PNone True"
      example_consts]
    is_on_total_iff [of "example_switch (SWITCH_AVAILABILITY example_consts) False"
      "example_cs PNone True" example_consts]
  by (simp add: example_defs example_no_condition_def descriptor_defs metric_driven_def
      dict_get_def)

section \<open>Turning on\<close>

text \<open>
  Claim C2. \<open>async_turn_on\<close> sends the \<^verbatim>\<open>on\<close> command once, without a value
  argument. With \<open>success\<close> the answer of the command channel, the cached state
  afterwards is \<open>\<not> success\<close> when \<^verbatim>\<open>pulse\<close> is \<^verbatim>\<open>True\<close>, and \<open>success\<close>
  when \<^verbatim>\<open>pulse\<close> is \<^verbatim>\<open>False\<close> or absent.
\<close>

theorem async_turn_on_state:
  assumes "purpose sw ''on'' = Some c"
  shows "\<exists>sw'. async_turn_on cs sw =
            Inr (cs\<lparr>calls := calls cs @ [SetChargerState (cp_id sw) c None]\<rparr>, sw')
          \<and> (purpose sw ''pulse'' = Some (PBool True)
                \<longrightarrow> state sw' = (\<not> set_charger_state cs (cp_id sw) c None))
          \<and> (purpose sw ''pulse'' = Some (PBool False) \<or> purpose sw ''pulse'' = None
                \<longrightarrow> state sw' = set_charger_state cs (cp_id sw) c None)"
  using assms
  by (auto simp: async_turn_on_def is_pulse_def dict_get_default_def dict_item_Some
      call_set_charger_state_def split: option.splits)

text \<open>The theorem of claim C2 at concrete inputs.\<close>

theorem async_turn_on_state_witness:
  "purpose (example_switch SWITCH_RESET False) ''on'' = Some (PStr ''service_reset'')
   \<and> purpose (example_switch SWITCH_RESET False) ''pulse'' = Some (PBool True)
   \<and> (\<exists>sw'. async_turn_on (example_cs PNone True) (example_switch SWITCH_RESET False) =
          Inr ((example_cs PNone True)\<lparr>calls := [SetChargerState ''cp1'' (PStr ''service_reset'') None]\<rparr>, sw')
        \<and> state sw' = False)
   \<and> purpose (example_switch (SWITCH_CHARGE example_consts) False) ''on'' = Some (PStr ''service_charge_start'')
   \<and> purpose (example_switch (SWITCH_CHARGE example_consts) False) ''pulse'' = None
   \<and> (\<exists>sw'. async_turn_on (example_cs PNone True) (example_switch (SWITCH_CHARGE example_consts) False) =
          Inr ((example_cs PNone True)\<lparr>calls := [SetChargerState ''cp1'' (PStr ''service_charge_start'') None]\<rparr>, sw')
        \<and> state sw' = True)"
  using async_turn_on_state [of "example_switch SWITCH_RESET False" "PStr ''service_reset''"
      "example_cs PNone True"]
    async_turn_on_state [of "example_switch (SWITCH_CHARGE example_consts) False"
      "PStr ''service_charge_start''" "example_cs PNone True"]
  by (simp add: example_defs descriptor_defs)

section \<open>Turning off\<close>

text \<open>
  Claim C3. In each of its three branches \<open>async_turn_off\<close> sets the cached state to
  \<open>\<not> success\<close>: with \<^verbatim>\<open>off\<close> absent \<open>success\<close> is \<open>True\<close>; with \<^verbatim>\<open>off\<close>
  equal to \<^verbatim>\<open>on\<close> it is the answer to the command sent with the value
  \<^verbatim>\<open>False\<close>; with \<^verbatim>\<open>off\<close> different from \<^verbatim>\<open>on\<close> it is the answer to the
  command sent without a value.
\<close>

theorem async_turn_off_state:
  "(dict_get (purpose sw) ''off'' = PNone
      \<longrightarrow> (\<exists>cs'. async_turn_off cs sw = Inr (cs', sw\<lparr>state := \<not> True\<rparr>)))
   \<and> (dict_get (purpose sw) ''off'' = f \<and> f \<noteq> PNone \<and> purpose sw ''on'' = Some n \<and> py_eq f n
      \<longrightarrow> (\<exists>cs'. async_turn_off cs sw =
             Inr (cs', sw\<lparr>state := \<not> set_charger_state cs (cp_id sw) f (Some False)\<rparr>)))
   \<and> (dict_get (purpose sw) ''off'' = f \<and> f \<noteq> PNone \<and> purpose sw ''on'' = Some n \<and> \<not> py_eq f n
      \<longrightarrow> (\<exists>cs'. async_turn_off cs sw =
             Inr (cs', sw\<lparr>state := \<not> set_charger_state cs (cp_id sw) f None\<rparr>)))"
  by (auto simp: async_turn_off_def dict_get_def dict_item_def call_set_charger_state_def
      split: option.splits)

text \<open>The theorem of claim C3 at concrete inputs.\<close>

theorem async_turn_off_state_witness:
  "dict_get (purpose (example_switch SWITCH_RESET True)) ''off'' = PNone
   \<and> (\<exists>cs'. async_turn_off (example_cs PNone True) (example_switch SWITCH_RESET True) =
          Inr (cs', example_switch SWITCH_RESET False))
   \<and> dict_get (purpose (example_switch (SWITCH_AVAILABILITY example_consts) True)) ''off''
        = PStr ''service_availability''
   \<and> purpose (example_switch (SWITCH_AVAILABILITY example_consts) True) ''on''
        = Some (PStr ''service_availability'')
   \<and> (\<exists>cs'. async_turn_off (example_cs PNone True)
                (example_switch (SWITCH_AVAILABILITY example_consts) True) =
          Inr (cs', example_switch (SWITCH_AVAILABILITY example_consts) False))
   \<and> dict_get (purpose (example_switch (SWITCH_CHARGE example_consts) False)) ''off''
        = PStr ''service_charge_stop''
   \<and> purpose (example_switch (SWITCH_CHARGE example_consts) False) ''on''
        = Some (PStr ''service_charge_start'')
   \<and> (\<exists>cs'. async_turn_off (example_cs PNone False)
                (example_switch (SWITCH_CHARGE example_consts) False) =
          Inr (cs', example_switch (SWITCH_CHARGE example_consts) True))"
  using async_turn_off_state [where sw = "example_switch SWITCH_RESET True"
      and cs = "example_cs PNone True" and f = PNone and n = PNone]
    async_turn_off_state [where sw = "example_switch (SWITCH_AVAILABILITY example_consts) True"
      and cs = "example_cs PNone True" and f = "PStr ''service_availability''"
      and n = "PStr ''service_availability''"]
    async_turn_off_state [where sw = "example_switch (SWITCH_CHARGE example_consts) False"
      and cs = "example_cs PNone False" and f = "PStr ''service_charge_stop''"
      and n = "PStr ''service_charge_start''"]
  by (simp add: example_defs descriptor_defs dict_get_def)

text \<open>
  Claim C5. For a switch whose descriptor has no \<^verbatim>\<open>off\<close> command, \<open>async_turn_off\<close>
  returns the central system as it was (its log of calls has not grown, so nothing was
  dispatched) and leaves the cached state false.
\<close>

theorem async_turn_off_no_off:
  assumes "dict_get (purpose sw) ''off'' = PNone"
  shows "async_turn_off cs sw = Inr (cs, sw\<lparr>state := False\<rparr>)"
  using assms by (simp add: async_turn_off_def)

text \<open>The theorem of claim C5 at concrete inputs.\<close>

theorem async_turn_off_no_off_witness:
  "dict_get (purpose (example_switch SWITCH_RESET True)) ''off'' = PNone
   \<and> async_turn_off (example_cs PNone True) (example_switch SWITCH_RESET True) =
       Inr (example_cs PNone True, example_switch SWITCH_RESET False)
   \<and> calls (example_cs PNone True) = []"
  using async_turn_off_no_off [of "example_switch SWITCH_RESET True" "example_cs PNone True"]
  by (simp add: example_defs descriptor_defs dict_get_def)

text \<open>
  Claim C6. When \<^verbatim>\<open>off\<close> is the same command as \<^verbatim>\<open>on\<close>, \<open>async_turn_off\<close>
  adds exactly one call to the log: the \<^verbatim>\<open>on\<close> command, carrying the explicit value
  \<^verbatim>\<open>False\<close>. When \<^verbatim>\<open>off\<close> differs from \<^verbatim>\<open>on\<close> (Python's \<^verbatim>\<open>==\<close> is
  false), it adds exactly one call: the \<^verbatim>\<open>off\<close> command, with no value argument.
\<close>

theorem async_turn_off_dispatch:
  assumes "purpose sw ''off'' = Some f" and "f \<noteq> PNone" and "purpose sw ''on'' = Some n"
  shows "(f = n \<longrightarrow> (\<exists>sw'. async_turn_off cs sw =
            Inr (cs\<lparr>calls := calls cs @ [SetChargerState (cp_id sw) n (Some False)]\<rparr>, sw')))
       \<and> (\<not> py_eq f n \<longrightarrow> (\<exists>sw'. async_turn_off cs sw =
            Inr (cs\<lparr>calls := calls cs @ [SetChargerState (cp_id sw) f None]\<rparr>, sw')))"
  using assms
  by (auto simp: async_turn_off_def dict_get_Some dict_item_Some call_set_charger_state_def
      py_eq_refl)

text \<open>The theorem of claim C6 at concrete inputs.\<close>

theorem async_turn_off_dispatch_witness:
  "purpose (example_switch (SWITCH_AVAILABILITY example_consts) True) ''off''
        = Some (PStr ''service_availability'')
   \<and> purpose (example_switch (SWITCH_AVAILABILITY example_consts) True) ''on''
        = Some (PStr ''service_availability'')
   \<and> (\<exists>sw'. async_turn_off (example_cs PNone True)
                (example_switch (SWITCH_AVAILABILITY example_consts) True) =
          Inr ((example_cs PNone True)\<lparr>calls :=
                 [SetChargerState ''cp1'' (PStr ''service_availability'') (Some False)]\<rparr>, sw'))
   \<and> purpose (example_switch (SWITCH_CHARGE example_consts) True) ''off''
        = Some (PStr ''service_charge_stop'')
   \<and> purpose (example_switch (SWITCH_CHARGE example_consts) True) ''on''
        = Some (PStr ''service_charge_start'')
   \<and> \<not> py_eq (PStr ''service_charge_stop'') (PStr ''service_charge_start'')
   \<and> (\<exists>sw'. async_turn_off (example_cs PNone True)
                (example_switch (SWITCH_CHARGE example_consts) True) =
          Inr ((example_cs PNone True)\<lparr>calls :=
                 [SetChargerState ''cp1'' (PStr ''service_charge_stop'') None]\<rparr>, sw'))"
  using async_turn_off_dispatch [of "example_switch (SWITCH_AVAILABILITY example_consts) True"
      "PStr ''service_availability''" "PStr ''service_availability''" "example_cs PNone True"]
    async_turn_off_dispatch [of "example_switch (SWITCH_CHARGE example_consts) True"
      "PStr ''service_charge_stop''" "PStr ''service_charge_start''" "example_cs PNone True"]
  by (simp add: example_defs descriptor_defs)

section \<open>Construction\<close>

text \<open>
  Claim C7. For a descriptor with a string \<^verbatim>\<open>name\<close> the constructor returns a switch
  whose cached state is the descriptor's boolean \<^verbatim>\<open>default\<close> when that is present,
  and false when it is absent. Hence for a descriptor without \<^verbatim>\<open>metric\<close> and with
  \<^verbatim>\<open>default\<close> true (pulse or not), \<open>is_on\<close> on the fresh switch returns true and
  changes nothing.
\<close>

theorem init_state:
  assumes "serv_desc ''name'' = Some (PStr nm)"
  shows "\<exists>sw. init K cp serv_desc = Inr sw
          \<and> cp_id sw = cp \<and> purpose sw = serv_desc
          \<and> (\<forall>b. serv_desc ''default'' = Some (PBool b) \<longrightarrow> state sw = b)
          \<and> (dict_get serv_desc ''default'' = PNone \<longrightarrow> state sw = False)
          \<and> (\<not> metric_driven serv_desc \<and> serv_desc ''default'' = Some (PBool True)
                \<longrightarrow> is_on cs sw = Inr (True, cs, sw))"
  using assms
  by (auto simp: init_def has_default_def dict_get_def dict_item_def is_on_def
      split: option.splits)

text \<open>The theorem of claim C7 at concrete inputs.\<close>

theorem init_state_witness:
  "example_toggle ''name'' = Some (PStr ''Toggle'')
   \<and> \<not> metric_driven example_toggle
   \<and> example_toggle ''default'' = Some (PBool True)
   \<and> (\<exists>sw. init example_consts ''cp1'' example_toggle = Inr sw
         \<and> state sw = True
         \<and> is_on (example_cs PNone False) sw = Inr (True, example_cs PNone False, sw))
   \<and> SWITCH_RESET ''name'' = Some (PStr ''Reset'')
   \<and> dict_get SWITCH_RESET ''default'' = PNone
   \<and> (\<exists>sw. init example_consts ''cp1'' SWITCH_RESET = Inr sw \<and> state sw = False)"
  using init_state [of example_toggle "''Toggle''" example_consts "''cp1''" "example_cs PNone False"]
    init_state [of SWITCH_RESET "''Reset''" example_consts "''cp1''" "example_cs PNone False"]
  by (auto simp: example_toggle_def descriptor_defs metric_driven_def dict_get_def)

section \<open>Modes of the four descriptors\<close>

text \<open>
  Claim C4, as stated: each of the four descriptors carries exactly one of the three
  modes. It fails for \<^verbatim>\<open>Availability\<close>, which sets both \<^verbatim>\<open>metric\<close> and
  \<^verbatim>\<open>default\<close>.
\<close>

theorem availability_two_modes:
  "mode_count (SWITCH_AVAILABILITY example_consts) \<noteq> 1"
  by (simp add: mode_count_def metric_driven_def is_pulse_def has_default_def dict_get_def
      dict_get_default_def SWITCH_AVAILABILITY_def)

text \<open>
  Claim C4, amended: \<^verbatim>\<open>Charge_Control\<close>, \<^verbatim>\<open>Reset\<close> and \<^verbatim>\<open>Unlock\<close> carry
  exactly one mode each: \<^verbatim>\<open>Charge_Control\<close> is metric-driven (not pulse, no default),
  \<^verbatim>\<open>Reset\<close> and \<^verbatim>\<open>Unlock\<close> are pulse (no metric, no default).
  \<^verbatim>\<open>Availability\<close> carries two, being metric-driven with a default state, and is
  not a pulse switch.
\<close>

theorem descriptor_modes:
  "(metric_driven (SWITCH_CHARGE K) \<and> \<not> is_pulse (SWITCH_CHARGE K)
      \<and> \<not> has_default (SWITCH_CHARGE K) \<and> mode_count (SWITCH_CHARGE K) = 1)
   \<and> (is_pulse SWITCH_RESET \<and> \<not> metric_driven SWITCH_RESET
      \<and> \<not> has_default SWITCH_RESET \<and> mode_count SWITCH_RESET = 1)
   \<and> (is_pulse SWITCH_UNLOCK \<and> \<not> metric_driven SWITCH_UNLOCK
      \<and> \<not> has_default SWITCH_UNLOCK \<and> mode_count SWITCH_UNLOCK = 1)
   \<and> (metric_driven (SWITCH_AVAILABILITY K) \<and> has_default (SWITCH_AVAILABILITY K)
      \<and> \<not> is_pulse (SWITCH_AVAILABILITY K) \<and> mode_count (SWITCH_AVAILABILITY K) = 2)"
  by (simp add: mode_count_def metric_driven_def is_pulse_def has_default_def dict_get_def
      dict_get_default_def SWITCH_CHARGE_def SWITCH_AVAILABILITY_def SWITCH_RESET_def
      SWITCH_UNLOCK_def)

end
